theory Spec2Isabelle
  imports Main
begin

section \<open>JavaScript values\<close>

text \<open>
  The client of \<^verbatim>\<open>frontend/src/App.jsx\<close> receives JSON from the service and inspects it
  with JavaScript's own tests (truthiness, \<^verbatim>\<open>typeof\<close>, property access). Strings are
  byte lists in UTF-8; a number is an integer (every number the properties below speak of is
  a count, a status code or an identifier).
\<close>

datatype jsval =
    Undefined
  | JNull
  | JBool bool
  | JNum int
  | JStr string
  | JArr "jsval list"
  | JObj "(string \<times> jsval) list"

datatype js_error = JsError (message: string)

text \<open>JavaScript's ToBoolean, as used by \<^verbatim>\<open>!x\<close>, \<^verbatim>\<open>x && y\<close> and \<^verbatim>\<open>x || y\<close>.\<close>

fun truthy :: "jsval \<Rightarrow> bool" where
  "truthy Undefined = False"
| "truthy JNull = False"
| "truthy (JBool b) = b"
| "truthy (JNum n) = (n \<noteq> 0)"
| "truthy (JStr s) = (s \<noteq> [])"
| "truthy (JArr xs) = True"
| "truthy (JObj kvs) = True"

text \<open>\<^verbatim>\<open>typeof v === "object"\<close>: true of objects, arrays and null.\<close>

fun typeof_object :: "jsval \<Rightarrow> bool" where
  "typeof_object JNull = True"
| "typeof_object (JArr xs) = True"
| "typeof_object (JObj kvs) = True"
| "typeof_object v = False"

text \<open>
  The message of the TypeError that reading a property of null or undefined raises (the
  wording of V8).
\<close>

definition null_read_message :: "string \<Rightarrow> string \<Rightarrow> string" where
  "null_read_message what key =
     ''Cannot read properties of '' @ what @ '' (reading '' @ [CHR 0x27] @ key @ [CHR 0x27] @ '')''"

text \<open>
  \<^verbatim>\<open>v.key\<close> for the keys the source reads from JSON (\<^verbatim>\<open>detail\<close>, \<^verbatim>\<open>error\<close>,
  \<^verbatim>\<open>name\<close>, \<^verbatim>\<open>total_rows\<close>, \<^verbatim>\<open>versions\<close>): none of them is a built-in property
  of a string, a number, a boolean or an array, so only an object can hold one. An object is
  the list of its fields as \<^verbatim>\<open>JSON.parse\<close> leaves them, each key once.
\<close>

fun get_prop :: "jsval \<Rightarrow> string \<Rightarrow> js_error + jsval" where
  "get_prop Undefined key = Inl (JsError (null_read_message ''undefined'' key))"
| "get_prop JNull key = Inl (JsError (null_read_message ''null'' key))"
| "get_prop (JObj kvs) key = Inr (case map_of kvs key of None \<Rightarrow> Undefined | Some v \<Rightarrow> v)"
| "get_prop v key = Inr Undefined"

text \<open>Decimal digits of a natural number, as a template literal prints a number.\<close>

definition digit_char :: "nat \<Rightarrow> char" where
  "digit_char d = char_of (48 + d)"

function decimal :: "nat \<Rightarrow> string" where
  "decimal n =
     (if 10 \<le> n then decimal (n div 10) @ [digit_char (n mod 10)] else [digit_char n])"
  by pat_completeness auto
termination
  by (relation "measure id") auto

declare decimal.simps [simp del]

text \<open>The same for an integer, with the sign in front.\<close>

definition decimal_int :: "int \<Rightarrow> string" where
  "decimal_int i = (if 0 \<le> i then decimal (nat i) else CHR 0x2D # decimal (nat (- i)))"

text \<open>\<^verbatim>\<open>Array.prototype.join\<close> with separator \<^verbatim>\<open>,\<close> over already printed elements.\<close>

fun join_comma :: "string list \<Rightarrow> string" where
  "join_comma [] = []"
| "join_comma [s] = s"
| "join_comma (s # t # ss) = s @ '','' @ join_comma (t # ss)"

text \<open>
  JavaScript's ToString, as a template literal and \<^verbatim>\<open>+\<close> on a string apply it. Inside an
  array, null and undefined print as the empty string.
\<close>

fun js_to_string :: "jsval \<Rightarrow> string" where
  "js_to_string Undefined = ''undefined''"
| "js_to_string JNull = ''null''"
| "js_to_string (JBool b) = (if b then ''true'' else ''false'')"
| "js_to_string (JNum n) = decimal_int n"
| "js_to_string (JStr s) = s"
| "js_to_string (JArr xs) =
     join_comma (map (\<lambda>x. if x = Undefined \<or> x = JNull then [] else js_to_string x) xs)"
| "js_to_string (JObj kvs) = ''[object Object]''"

text \<open>\<^verbatim>\<open>s.endsWith(suffix)\<close>.\<close>

definition endsWith :: "string \<Rightarrow> string \<Rightarrow> bool" where
  "endsWith s suffix =
     (length suffix \<le> length s \<and> drop (length s - length suffix) s = suffix)"

section \<open>The gateway\<close>

text \<open>
  \<^verbatim>\<open>fetch\<close> either rejects (the network failed) or resolves with a response. The body of a
  response is what \<^verbatim>\<open>r.json()\<close> makes of it: the parsed value, or the message of the
  SyntaxError when the text is not JSON.
\<close>

record response =
  status :: nat
  statusText :: string
  body :: "string + jsval"

datatype outcome = Rejected string | Resolved response

text \<open>\<^verbatim>\<open>r.ok\<close>: the status is in the range 200 to 299.\<close>

definition ok :: "response \<Rightarrow> bool" where
  "ok r = (200 \<le> status r \<and> status r \<le> 299)"

text \<open>\<^verbatim>\<open>r.json()\<close>.\<close>

definition json :: "response \<Rightarrow> js_error + jsval" where
  "json r = (case body r of Inl m \<Rightarrow> Inl (JsError m) | Inr v \<Rightarrow> Inr v)"

text \<open>
  The callback of \<^verbatim>\<open>api\<close>:
  \<^verbatim>\<open>r => { if (!r.ok) throw new Error(`${r.status} ${r.statusText}`); return r.json(); }\<close>
\<close>

definition api_then :: "response \<Rightarrow> js_error + jsval" where
  "api_then r =
     (if \<not> ok r then Inl (JsError (decimal (status r) @ '' '' @ statusText r))
      else json r)"

text \<open>
  \<^verbatim>\<open>api(path, opts)\<close>, given what the fetch of that request comes to: the promise it
  returns rejects with an error (\<open>Inl\<close>) or resolves with the parsed body.
\<close>

definition api :: "outcome \<Rightarrow> js_error + jsval" where
  "api out = (case out of Rejected m \<Rightarrow> Inl (JsError m) | Resolved r \<Rightarrow> api_then r)"

text \<open>
  The structured error object in the words of the specification: an object with a field
  \<^verbatim>\<open>error\<close>, and optionally \<^verbatim>\<open>reason\<close>, \<^verbatim>\<open>explanation\<close>, \<^verbatim>\<open>found_issues\<close>
  and \<^verbatim>\<open>how_to_fix\<close>. This is the decoding the specification asks of the gateway; it is
  compared with \<open>api\<close>, which is the source.
\<close>

record structured_error =
  se_error :: jsval
  se_reason :: jsval
  se_explanation :: jsval
  se_found_issues :: jsval
  se_how_to_fix :: jsval

definition field :: "(string \<times> jsval) list \<Rightarrow> string \<Rightarrow> jsval" where
  "field kvs key = (case map_of kvs key of None \<Rightarrow> Undefined | Some v \<Rightarrow> v)"

fun spec_decode_error :: "string + jsval \<Rightarrow> structured_error option" where
  "spec_decode_error (Inr (JObj kvs)) =
     (case map_of kvs ''error'' of
        Some (JStr e) \<Rightarrow>
          Some \<lparr>se_error = JStr e, se_reason = field kvs ''reason'',
                se_explanation = field kvs ''explanation'',
                se_found_issues = field kvs ''found_issues'',
                se_how_to_fix = field kvs ''how_to_fix''\<rparr>
      | _ \<Rightarrow> None)"
| "spec_decode_error b = None"

section \<open>Effects\<close>

text \<open>
  What a handler does to the world outside the component, in the order it does it: a request
  handed to \<^verbatim>\<open>fetch\<close> (method and URL), a \<^verbatim>\<open>window.alert\<close>, a
  \<^verbatim>\<open>window.confirm\<close>, and the call of the \<^verbatim>\<open>onUploaded\<close> callback, with which
  \<^verbatim>\<open>App\<close> reloads the list and selects the new dataset. What the service answers to a
  request is an argument of the handler.
\<close>

datatype http_method = GET | POST | DELETE

datatype effect =
    Fetch http_method string
  | Alert string
  | Confirm string
  | OnUploaded jsval

definition API_BASE :: string where
  "API_BASE = ''http://localhost:8000''"

definition check_mark :: string where
  "check_mark = [CHR 0xE2, CHR 0x9C, CHR 0x93]"

definition em_dash :: string where
  "em_dash = [CHR 0xE2, CHR 0x80, CHR 0x94]"

definition dquote :: string where
  "dquote = [CHR 0x22]"

text \<open>A \<^verbatim>\<open>File\<close>, of which the source reads the name only.\<close>

record js_file =
  file_name :: string

text \<open>\<^verbatim>\<open>!file || !file.name.endsWith(".csv")\<close>, the guard of both upload handlers.\<close>

definition not_csv :: "js_file option \<Rightarrow> bool" where
  "not_csv file = (case file of None \<Rightarrow> True | Some f \<Rightarrow> \<not> endsWith (file_name f) ''.csv'')"

section \<open>UploadZone\<close>

text \<open>
  The message the zone shows: \<^verbatim>\<open>{ ok, text, details }\<close>; \<open>details\<close> is \<open>Undefined\<close>
  where the source leaves the property out.
\<close>

record msg =
  msg_ok :: bool
  msg_text :: jsval
  msg_details :: jsval

record upload_zone =
  dragging :: bool
  uploading :: bool
  msg :: "msg option"

definition upload_url :: string where
  "upload_url = API_BASE @ ''/datasets/upload''"

text \<open>
  The text of the success message,
  \<^verbatim>\<open>`<check> "${ds.name}" uploaded <dash> ${ds.total_rows} rows`\<close>;
  reading a property of \<^verbatim>\<open>null\<close> throws.
\<close>

definition uploaded_text :: "jsval \<Rightarrow> js_error + string" where
  "uploaded_text ds =
     (case get_prop ds ''name'' of
        Inl e \<Rightarrow> Inl e
      | Inr n \<Rightarrow>
          (case get_prop ds ''total_rows'' of
             Inl e \<Rightarrow> Inl e
           | Inr t \<Rightarrow>
               Inr (check_mark @ '' '' @ dquote @ js_to_string n @ dquote @ '' uploaded ''
                    @ em_dash @ '' '' @ js_to_string t @ '' rows'')))"

text \<open>
  The \<^verbatim>\<open>try\<close> block of \<^verbatim>\<open>upload\<close>: the first POST through \<open>api\<close>, then the success
  message and the call of \<^verbatim>\<open>onUploaded\<close>. \<open>Inl e\<close> is the exception that reaches
  \<^verbatim>\<open>catch(e)\<close>.
\<close>

definition upload_try :: "outcome \<Rightarrow> js_error + (msg \<times> jsval)" where
  "upload_try first =
     (case api first of
        Inl e \<Rightarrow> Inl e
      | Inr ds \<Rightarrow>
          (case uploaded_text ds of
             Inl e \<Rightarrow> Inl e
           | Inr t \<Rightarrow> Inr (\<lparr>msg_ok = True, msg_text = JStr t, msg_details = Undefined\<rparr>, ds)))"

text \<open>
  The \<^verbatim>\<open>catch(e)\<close> block: the same POST is sent again with a bare \<^verbatim>\<open>fetch\<close> and its
  body parsed whatever the status; \<open>second\<close> is what that fetch comes to. The inner
  \<^verbatim>\<open>catch\<close> takes a rejected fetch, a body that is not JSON, and a body that is
  \<^verbatim>\<open>null\<close>.
\<close>

definition upload_catch :: "js_error \<Rightarrow> outcome \<Rightarrow> msg" where
  "upload_catch e second =
     (let inner_catch =
            \<lparr>msg_ok = False, msg_text = JStr (''Upload failed: '' @ message e),
             msg_details = Undefined\<rparr>
      in case (case second of Rejected m \<Rightarrow> Inl (JsError m) | Resolved r \<Rightarrow> json r) of
           Inl x \<Rightarrow> inner_catch
         | Inr errData \<Rightarrow>
             (case get_prop errData ''detail'' of
                Inl x \<Rightarrow> inner_catch
              | Inr detail \<Rightarrow>
                  if truthy detail \<and> typeof_object detail then
                    (case get_prop detail ''error'' of
                       Inl x \<Rightarrow> inner_catch
                     | Inr err \<Rightarrow>
                         \<lparr>msg_ok = False,
                          msg_text = (if truthy err then err else JStr ''Upload failed''),
                          msg_details = detail\<rparr>)
                  else \<lparr>msg_ok = False, msg_text = JStr (message e), msg_details = Undefined\<rparr>))"

text \<open>
  \<^verbatim>\<open>upload(file)\<close>. \<open>first\<close> is what the POST of the \<^verbatim>\<open>try\<close> block comes to and
  \<open>second\<close> what the POST of the \<^verbatim>\<open>catch\<close> block comes to, when it is sent. The result is
  the state of the zone when the handler has finished, and its effects.
\<close>

definition upload :: "js_file option \<Rightarrow> outcome \<Rightarrow> outcome \<Rightarrow> upload_zone \<Rightarrow> upload_zone \<times> effect list" where
  "upload file first second z =
     (if not_csv file then
        (z\<lparr>msg := Some \<lparr>msg_ok = False, msg_text = JStr ''Only CSV files are supported.'',
                          msg_details = Undefined\<rparr>\<rparr>, [])
      else
        (case upload_try first of
           Inr (m, ds) \<Rightarrow>
             (z\<lparr>uploading := False, msg := Some m\<rparr>,
              [Fetch POST upload_url, OnUploaded ds])
         | Inl e \<Rightarrow>
             (z\<lparr>uploading := False, msg := Some (upload_catch e second)\<rparr>,
              [Fetch POST upload_url, Fetch POST upload_url])))"

text \<open>The POST requests to the upload endpoint among the effects of a handler.\<close>

definition upload_posts :: "effect list \<Rightarrow> nat" where
  "upload_posts es = length (filter (\<lambda>e. e = Fetch POST upload_url) es)"

text \<open>The requests among the effects of a handler.\<close>

fun is_fetch :: "effect \<Rightarrow> bool" where
  "is_fetch (Fetch m u) = True"
| "is_fetch e = False"

text \<open>The zone as it is first rendered.\<close>

definition upload_zone_init :: upload_zone where
  "upload_zone_init = \<lparr>dragging = False, uploading = False, msg = None\<rparr>"

text \<open>
  The rejection the specification gives as its example: status 422 and the body
  \<^verbatim>\<open>{detail:{error:"bad header", reason:"missing id column", found_issues:["no 'id' column"], how_to_fix:"add an id column"}}\<close>.
\<close>

definition bad_header_detail :: "(string \<times> jsval) list" where
  "bad_header_detail =
     [(''error'', JStr ''bad header''),
      (''reason'', JStr ''missing id column''),
      (''found_issues'', JArr [JStr (''no '' @ [CHR 0x27] @ ''id'' @ [CHR 0x27] @ '' column'')]),
      (''how_to_fix'', JStr ''add an id column'')]"

definition bad_header_response :: response where
  "bad_header_response =
     \<lparr>status = 422, statusText = ''Unprocessable Entity'',
      body = Inr (JObj [(''detail'', JObj bad_header_detail)])\<rparr>"

section \<open>App and DatasetList\<close>

text \<open>The client's projection of a dataset; the counts may be missing.\<close>

record dataset =
  ds_id :: nat
  ds_name :: string
  ds_version :: nat
  total_rows :: "nat option"
  total_columns :: "nat option"

record app =
  datasets :: "dataset list"
  selected :: "dataset option"
  activeTab :: string
  sideOpen :: bool

text \<open>
  \<^verbatim>\<open>handleDelete\<close> of \<^verbatim>\<open>App\<close>. The list is updated from its current value
  (\<^verbatim>\<open>setDatasets(prev => ...)\<close>), while \<^verbatim>\<open>selected\<close> is the variable of the render that
  made the handler: it is the first argument here.
\<close>

definition App_handleDelete :: "dataset option \<Rightarrow> nat \<Rightarrow> app \<Rightarrow> app" where
  "App_handleDelete sel deletedId a =
     (let a1 = a\<lparr>datasets := filter (\<lambda>ds. ds_id ds \<noteq> deletedId) (datasets a)\<rparr>
      in if (case sel of None \<Rightarrow> False | Some s \<Rightarrow> ds_id s = deletedId)
         then a1\<lparr>selected := None\<rparr> else a1)"

text \<open>The \<^verbatim>\<open>onSelect\<close> that \<^verbatim>\<open>App\<close> hands to the list.\<close>

definition App_onSelect :: "dataset \<Rightarrow> app \<Rightarrow> app" where
  "App_onSelect ds a = a\<lparr>selected := Some ds, activeTab := ''profile''\<rparr>"

text \<open>\<^verbatim>\<open>s.includes(sub)\<close>.\<close>

fun startsWith :: "string \<Rightarrow> string \<Rightarrow> bool" where
  "startsWith s [] = True"
| "startsWith [] (c # cs) = False"
| "startsWith (x # xs) (c # cs) = (x = c \<and> startsWith xs cs)"

fun str_includes :: "string \<Rightarrow> string \<Rightarrow> bool" where
  "str_includes [] sub = (sub = [])"
| "str_includes (x # xs) sub = (startsWith (x # xs) sub \<or> str_includes xs sub)"

definition delete_url :: "nat \<Rightarrow> string" where
  "delete_url i = API_BASE @ ''/datasets/'' @ decimal i"

definition confirm_text :: "dataset \<Rightarrow> string" where
  "confirm_text ds = ''Delete '' @ dquote @ ds_name ds @ dquote @ ''? This cannot be undone.''"

text \<open>
  \<^verbatim>\<open>handleDelete\<close> of \<^verbatim>\<open>DatasetList\<close>, for a click on the delete button of \<open>ds\<close>:
  \<open>onDelete\<close> is the callback the list was given, \<open>confirmed\<close> what
  \<^verbatim>\<open>window.confirm\<close> returns, \<open>out\<close> what the DELETE comes to when it is sent. The state
  is the \<^verbatim>\<open>deleting\<close> marker of the list and the state of \<^verbatim>\<open>App\<close>.
  (\<^verbatim>\<open>e.stopPropagation()\<close> keeps the click from selecting the row.)
\<close>

definition DatasetList_handleDelete ::
  "(nat \<Rightarrow> app \<Rightarrow> app) \<Rightarrow> dataset \<Rightarrow> bool \<Rightarrow> outcome \<Rightarrow> nat option \<times> app
     \<Rightarrow> (nat option \<times> app) \<times> effect list" where
  "DatasetList_handleDelete onDelete ds confirmed out st =
     (if \<not> confirmed then (st, [Confirm (confirm_text ds)])
      else
        (case api out of
           Inr v \<Rightarrow>
             ((None, onDelete (ds_id ds) (snd st)),
              [Confirm (confirm_text ds), Fetch DELETE (delete_url (ds_id ds))])
         | Inl e \<Rightarrow>
             ((None, snd st),
              [Confirm (confirm_text ds), Fetch DELETE (delete_url (ds_id ds)),
               Alert (if str_includes (message e) ''version''
                      then ''Cannot delete: child versions exist. Delete them first.''
                      else ''Delete failed: '' @ message e)])))"

text \<open>Two datasets in the list, the first of them selected, and an answer to a DELETE.\<close>

definition sales :: dataset where
  "sales = \<lparr>ds_id = 1, ds_name = ''sales.csv'', ds_version = 1,
             total_rows = Some 120, total_columns = Some 4\<rparr>"

definition stock :: dataset where
  "stock = \<lparr>ds_id = 2, ds_name = ''stock.csv'', ds_version = 1,
             total_rows = Some 75, total_columns = Some 6\<rparr>"

definition sales_selected :: app where
  "sales_selected = \<lparr>datasets = [sales, stock], selected = Some sales,
                      activeTab = ''profile'', sideOpen = True\<rparr>"

definition deleted_response :: response where
  "deleted_response = \<lparr>status = 200, statusText = ''OK'',
                        body = Inr (JObj [(''message'', JStr ''Dataset deleted'')])\<rparr>"

section \<open>ProfilePanel\<close>

text \<open>
  The panel stays mounted while the profile tab is shown and receives the selected dataset
  as a prop. Its requests are answered later, in any order, so the state carries the
  requests that are in flight: the effect's GET and the POST of \<^verbatim>\<open>runProfile\<close>, each with
  the dataset id in its URL. \<open>data\<close> holds the value last given to \<^verbatim>\<open>setData\<close>
  (\<open>None\<close> for \<^verbatim>\<open>null\<close>) together with the dataset id of the request that brought it; the
  source keeps the value only, the id is recorded to say whose profile is shown.

  The clearing of the profile is in a \<^verbatim>\<open>useEffect\<close> with the dependency
  \<^verbatim>\<open>[dataset.id]\<close>: when the prop changes, React first renders and commits the panel with
  the new dataset and the state as it is, and runs the effect after that. \<open>effect_pending\<close>
  says that such a render has been committed and its effect has not run yet.
\<close>

datatype request_kind = EffectGet | RunPost

record profile_request =
  kind :: request_kind
  issued_for :: nat

record profile_panel =
  dataset_id :: nat
  data :: "(nat \<times> jsval) option"
  loading :: bool
  tab :: string
  inflight :: "profile_request list"
  effect_pending :: bool












text \<open>
  \<^verbatim>\<open>x?.key\<close>: undefined when \<open>x\<close> is null or undefined, the property otherwise.
\<close>

fun optional_prop :: "jsval \<Rightarrow> string \<Rightarrow> jsval" where
  "optional_prop (JObj kvs) key = field kvs key"
| "optional_prop v key = Undefined"

text \<open>
  \<^verbatim>\<open>const profile = data?.profile ?? data?.metrics?.profile\<close>: the second operand is taken
  when the first is null or undefined.
\<close>

definition profile_of :: "jsval \<Rightarrow> jsval" where
  "profile_of d =
     (let a = optional_prop d ''profile''
      in if a = Undefined \<or> a = JNull then optional_prop (optional_prop d ''metrics'') ''profile''
         else a)"

text \<open>
  \<open>holds_for p d\<close>: \<^verbatim>\<open>data\<close> is not null and came with the answer to a request issued for
  dataset \<open>d\<close>. \<open>ready_for p d\<close>: moreover the page shows it as a profile, which the render
  does under \<^verbatim>\<open>data && profile\<close>.
\<close>

definition holds_for :: "profile_panel \<Rightarrow> nat \<Rightarrow> bool" where
  "holds_for p d = (case data p of None \<Rightarrow> False | Some (d', v) \<Rightarrow> d' = d)"

definition ready_for :: "profile_panel \<Rightarrow> nat \<Rightarrow> bool" where
  "ready_for p d =
     (case data p of
        None \<Rightarrow> False
      | Some (d', v) \<Rightarrow> d' = d \<and> truthy v \<and> truthy (profile_of v))"




section \<open>RulesPanel: the validation results\<close>

text \<open>
  What React puts on the page, without the styling: a text node or an element with its
  children. A JSX expression between pieces of text is a text node of its own.
\<close>

datatype node = Text string | Element string "node list"

fun text_content :: "node \<Rightarrow> string" where
  "text_content (Text s) = s"
| "text_content (Element t cs) = concat (map text_content cs)"

text \<open>A value of a CSV cell as the service returns it.\<close>

datatype cell = CNull | CBool bool | CNum int | CStr string

text \<open>React renders a string or a number as text and nothing for null and booleans.\<close>

fun render_cell :: "cell \<Rightarrow> node list" where
  "render_cell CNull = []"
| "render_cell (CBool b) = []"
| "render_cell (CNum n) = [Text (decimal_int n)]"
| "render_cell (CStr s) = [Text s]"

record violation =
  row_index :: nat
  column_value :: cell
  row_data :: "(string \<times> cell) list"

text \<open>
  One result of a rule. \<open>parameters\<close> is the text \<^verbatim>\<open>JSON.stringify(r.parameters)\<close> gives,
  \<open>None\<close> when the field is falsy; \<open>violation_details\<close> is \<open>None\<close> when the field is
  missing.
\<close>

record rule_result =
  rule_id :: nat
  column :: string
  rule_type :: string
  parameters :: "string option"
  rr_status :: string
  rr_message :: string
  violations :: nat
  violation_details :: "violation list option"

record validation_result =
  overall_status :: string
  passed :: nat
  failed :: nat
  results :: "rule_result list"

definition ballot_x :: string where
  "ballot_x = [CHR 0xE2, CHR 0x9C, CHR 0x97]"

text \<open>
  The box at the top of the results: the headline and
  \<^verbatim>\<open><p>{valResult.passed} passed, {valResult.failed} failed</p>\<close>.
\<close>

definition summary_line :: "validation_result \<Rightarrow> node" where
  "summary_line vr =
     Element ''p'' [Text (decimal (passed vr)), Text '' passed, '',
                    Text (decimal (failed vr)), Text '' failed'']"

definition summary_box :: "validation_result \<Rightarrow> node" where
  "summary_box vr =
     Element ''div''
       [Element ''p''
          [Text (if overall_status vr = ''PASSED'' then check_mark @ '' All Rules Passed''
                 else ballot_x @ '' Validation Failed'')],
        summary_line vr]"

text \<open>One sampled violation: the row and the offending value, then the row's cells.\<close>

definition violation_entry :: "violation \<Rightarrow> node" where
  "violation_entry v =
     Element ''div''
       [Element ''div''
          [Text ''Row '', Text (decimal (row_index v)), Text '': '',
           Element ''span'' (render_cell (column_value v))],
        Element ''div''
          (map (\<lambda>(k, val). Element ''span'' ([Text k, Text '': ''] @ render_cell val))
               (row_data v))]"

text \<open>
  \<^verbatim>\<open>{r.violation_details && r.violation_details.length > 0 && ( ... )}\<close>: the heading
  \<^verbatim>\<open>Violations ({r.violations} total, showing first {r.violation_details.length}):\<close> and
  one entry for each element of \<^verbatim>\<open>r.violation_details\<close>.
\<close>

definition violations_heading :: "rule_result \<Rightarrow> violation list \<Rightarrow> node" where
  "violations_heading r vs =
     Element ''p'' [Text ''Violations ('', Text (decimal (violations r)),
                    Text '' total, showing first '', Text (decimal (length vs)),
                    Text ''):'']"

definition violations_block :: "rule_result \<Rightarrow> node list" where
  "violations_block r =
     (case violation_details r of
        None \<Rightarrow> []
      | Some vs \<Rightarrow>
          if length vs > 0 then
            [Element ''div'' [violations_heading r vs, Element ''div'' (map violation_entry vs)]]
          else [])"

text \<open>The card of one rule result and the whole results card.\<close>

definition rule_card :: "rule_result \<Rightarrow> node" where
  "rule_card r =
     Element ''div''
       ([Element ''div''
           [Element ''div''
              ([Element ''span'' [Text (column r)], Element ''span'' [Text (rule_type r)]]
               @ (case parameters r of None \<Rightarrow> [] | Some ps \<Rightarrow> [Element ''span'' [Text ps]])),
            Element ''span'' [Text (rr_status r)]],
         Element ''p'' [Text (rr_message r)]]
        @ violations_block r)"

definition validation_results :: "validation_result option \<Rightarrow> node list" where
  "validation_results valResult =
     (case valResult of
        None \<Rightarrow> []
      | Some vr \<Rightarrow>
          [Element ''Card''
             ([Element ''h4'' [Text ''Validation Results''], summary_box vr]
              @ map rule_card (results vr))])"

text \<open>
  What a test reads off the rendered results: the text of the page, the cards of the rule
  results (the children of the results card after its title and its summary box), and the
  entries of a card's violation list (the children of the second child of the card's third
  child, when it has one).
\<close>

definition page_text :: "node list \<Rightarrow> string" where
  "page_text ns = concat (map text_content ns)"

fun result_cards :: "node list \<Rightarrow> node list" where
  "result_cards [Element t (title # summary # cards)] = cards"
| "result_cards ns = []"

fun card_entries :: "node \<Rightarrow> node list" where
  "card_entries (Element t [header, note, Element t' [heading, Element t'' entries]]) = entries"
| "card_entries n = []"

text \<open>
  The result the specification gives as its example: 3 rules passed, 1 failed, and the
  failed rule has 12 violations of which the service returns 3.
\<close>

definition sampled :: "nat \<Rightarrow> violation" where
  "sampled i = \<lparr>row_index = i, column_value = CNum (- 1),
                 row_data = [(''id'', CNum (int i)), (''age'', CNum (- 1))]\<rparr>"

definition failed_rule :: rule_result where
  "failed_rule =
     \<lparr>rule_id = 1, column = ''age'', rule_type = ''range'',
      parameters = Some ''{\"min\":0,\"max\":100}'', rr_status = ''FAILED'',
      rr_message = ''12 values out of range'', violations = 12,
      violation_details = Some [sampled 4, sampled 9, sampled 17]\<rparr>"

definition three_passed_one_failed :: validation_result where
  "three_passed_one_failed =
     \<lparr>overall_status = ''FAILED'', passed = 3, failed = 1, results = [failed_rule]\<rparr>"

section \<open>VersionsPanel\<close>

text \<open>
  The two slots of the comparison hold a version id or \<^verbatim>\<open>null\<close>; the source tests a slot
  with \<^verbatim>\<open>!selectedV1\<close> and \<^verbatim>\<open>selectedV1 && selectedV2\<close>, that is by truthiness, and a
  number is truthy when it is not zero.
\<close>

record versions_panel =
  versions :: jsval
  comparison :: jsval
  selectedV1 :: "nat option"
  selectedV2 :: "nat option"
  vp_uploading :: bool
  vp_loading :: bool

definition versions_panel_init :: versions_panel where
  "versions_panel_init =
     \<lparr>versions = JArr [], comparison = JNull, selectedV1 = None, selectedV2 = None,
      vp_uploading = False, vp_loading = False\<rparr>"

definition slot_truthy :: "nat option \<Rightarrow> bool" where
  "slot_truthy s = (case s of None \<Rightarrow> False | Some n \<Rightarrow> n \<noteq> 0)"

text \<open>The \<^verbatim>\<open>checked\<close> and \<^verbatim>\<open>disabled\<close> attributes of the checkbox of version \<open>v\<close>.\<close>

definition checked :: "versions_panel \<Rightarrow> nat \<Rightarrow> bool" where
  "checked vp v = (selectedV1 vp = Some v \<or> selectedV2 vp = Some v)"

definition disabled :: "versions_panel \<Rightarrow> nat \<Rightarrow> bool" where
  "disabled vp v =
     (slot_truthy (selectedV1 vp) \<and> slot_truthy (selectedV2 vp)
      \<and> selectedV1 vp \<noteq> Some v \<and> selectedV2 vp \<noteq> Some v)"

text \<open>The \<^verbatim>\<open>onChange\<close> handler of that checkbox; \<open>c\<close> is \<^verbatim>\<open>e.target.checked\<close>.\<close>

definition onChange :: "versions_panel \<Rightarrow> nat \<Rightarrow> bool \<Rightarrow> versions_panel" where
  "onChange vp v c =
     (if c then
        (if \<not> slot_truthy (selectedV1 vp) then vp\<lparr>selectedV1 := Some v\<rparr>
         else if \<not> slot_truthy (selectedV2 vp) then vp\<lparr>selectedV2 := Some v\<rparr>
         else vp)
      else
        vp\<lparr>selectedV1 := (if selectedV1 vp = Some v then None else selectedV1 vp),
           selectedV2 := (if selectedV2 vp = Some v then None else selectedV2 vp)\<rparr>)"

text \<open>
  A click on the checkbox of version \<open>v\<close>: nothing when it is disabled, otherwise the
  handler runs with the opposite of what the box shows.
\<close>

definition toggle :: "versions_panel \<Rightarrow> nat \<Rightarrow> versions_panel" where
  "toggle vp v = (if disabled vp v then vp else onChange vp v (\<not> checked vp v))"

text \<open>
  \<^verbatim>\<open>{selectedV1 && selectedV2 && ( <button onClick={compare} disabled={loading}> ... )}\<close>:
  whether the compare button is on the page.
\<close>

definition compare_shown :: "versions_panel \<Rightarrow> bool" where
  "compare_shown vp = (slot_truthy (selectedV1 vp) \<and> slot_truthy (selectedV2 vp))"

text \<open>The ids whose checkbox is checked.\<close>

definition selection :: "versions_panel \<Rightarrow> nat set" where
  "selection vp = set_option (selectedV1 vp) \<union> set_option (selectedV2 vp)"

text \<open>
  The effect on a change of dataset:
  \<^verbatim>\<open>loadVersions(); setComparison(null); setSelectedV1(null); setSelectedV2(null)\<close>.
\<close>

definition versions_url :: "nat \<Rightarrow> string" where
  "versions_url d = API_BASE @ ''/datasets/'' @ decimal d @ ''/versions''"

definition dataset_changed :: "nat \<Rightarrow> versions_panel \<Rightarrow> versions_panel \<times> effect list" where
  "dataset_changed d vp =
     (vp\<lparr>comparison := JNull, selectedV1 := None, selectedV2 := None\<rparr>,
      [Fetch GET (versions_url d)])"

datatype versions_event = Toggle nat | DatasetChanged nat

fun versions_step :: "versions_panel \<Rightarrow> versions_event \<Rightarrow> versions_panel" where
  "versions_step vp (Toggle v) = toggle vp v"
| "versions_step vp (DatasetChanged d) = fst (dataset_changed d vp)"

fun toggled_id :: "versions_event \<Rightarrow> nat option" where
  "toggled_id (Toggle v) = Some v"
| "toggled_id (DatasetChanged d) = None"

text \<open>
  The answer to the GET of \<^verbatim>\<open>loadVersions\<close>:
  \<^verbatim>\<open>setVersions(data.versions || [])\<close>, any error dropped.
\<close>

definition loadVersions_done :: "outcome \<Rightarrow> versions_panel \<Rightarrow> versions_panel" where
  "loadVersions_done out vp =
     (case api out of
        Inl e \<Rightarrow> vp
      | Inr d \<Rightarrow>
          (case get_prop d ''versions'' of
             Inl e \<Rightarrow> vp
           | Inr v \<Rightarrow> vp\<lparr>versions := (if truthy v then v else JArr [])\<rparr>))"

definition new_version_url :: "nat \<Rightarrow> string" where
  "new_version_url d = API_BASE @ ''/datasets/'' @ decimal d @ ''/new-version''"

text \<open>
  \<^verbatim>\<open>uploadNewVersion(file)\<close> in the panel of dataset \<open>d\<close>; \<open>out\<close> is what the POST comes
  to when it is sent.
\<close>

definition uploadNewVersion ::
  "nat \<Rightarrow> js_file option \<Rightarrow> outcome \<Rightarrow> versions_panel \<Rightarrow> versions_panel \<times> effect list" where
  "uploadNewVersion d file out vp =
     (if not_csv file then (vp, [Alert ''Only CSV files allowed''])
      else
        (case api out of
           Inr v \<Rightarrow>
             (vp\<lparr>vp_uploading := False\<rparr>,
              [Fetch POST (new_version_url d), Fetch GET (versions_url d),
               Alert (check_mark @ '' New version uploaded!'')])
         | Inl e \<Rightarrow>
             (vp\<lparr>vp_uploading := False\<rparr>,
              [Fetch POST (new_version_url d), Alert (''Upload failed: '' @ message e)])))"

text \<open>
  What the toggles keep true when no version has the id 0: no slot holds 0, and the two slots
  do not hold the same id.
\<close>

definition slots_ok :: "versions_panel \<Rightarrow> bool" where
  "slots_ok vp =
     (selectedV1 vp \<noteq> Some 0 \<and> selectedV2 vp \<noteq> Some 0
      \<and> (selectedV1 vp = None \<or> selectedV1 vp \<noteq> selectedV2 vp))"

section \<open>Results\<close>

subsection \<open>The gateway\<close>

lemma decimal_422: "decimal 422 = ''422''"
  by code_simp

lemma decimal_7: "decimal 7 = ''7''"
  by code_simp

text \<open>
  Claim C2, as the code has it: for every response with a non-success status, \<open>api\<close> fails
  with an error whose message is the status, a space and the status text, whatever the body
  of the response is; the body is not looked at.
\<close>

theorem api_non_success_message:
  "\<not> ok r \<Longrightarrow>
     api (Resolved (r\<lparr>body := b\<rparr>)) =
       Inl (JsError (decimal (status r) @ '' '' @ statusText r))"
  by (simp add: api_def api_then_def ok_def)

theorem api_non_success_message_witness:
  "\<not> ok \<lparr>status = 422, statusText = ''Unprocessable Entity'', body = Inr JNull\<rparr>
   \<and> api (Resolved \<lparr>status = 422, statusText = ''Unprocessable Entity'',
                     body = Inr (JObj [(''error'', JStr ''bad header'')])\<rparr>)
       = Inl (JsError ''422 Unprocessable Entity'')"
proof -
  have h: "\<not> ok \<lparr>status = 422, statusText = ''Unprocessable Entity'', body = Inr JNull\<rparr>"
    by (simp add: ok_def)
  show ?thesis
    using h api_non_success_message [OF h, of "Inr (JObj [(''error'', JStr ''bad header'')])"]
    by (simp add: decimal_422)
qed

text \<open>
  Claim C2 as it is written fails: the body below is a structured error object with all five
  fields, so its decoding does not fail, and the gateway still answers with the message made
  of the status and the status text.
\<close>

theorem api_structured_body_counterexample:
  "spec_decode_error
     (Inr (JObj [(''error'', JStr ''bad header''), (''reason'', JStr ''missing id column''),
                 (''explanation'', JStr ''the file has no id column''),
                 (''found_issues'', JArr [JStr ''no id column'']),
                 (''how_to_fix'', JStr ''add an id column'')])) \<noteq> None
   \<and> api (Resolved \<lparr>status = 422, statusText = ''Unprocessable Entity'',
          body = Inr (JObj [(''error'', JStr ''bad header''), (''reason'', JStr ''missing id column''),
                 (''explanation'', JStr ''the file has no id column''),
                 (''found_issues'', JArr [JStr ''no id column'']),
                 (''how_to_fix'', JStr ''add an id column'')])\<rparr>)
       = Inl (JsError ''422 Unprocessable Entity'')"
  by (simp add: api_def api_then_def ok_def decimal_422)

subsection \<open>Uploads\<close>

lemma not_csv_Some: "not_csv (Some f) = (\<not> endsWith (file_name f) ''.csv'')"
  by (simp add: not_csv_def)

lemma upload_posts_one: "upload_posts [Fetch POST upload_url, OnUploaded ds] = 1"
  by (simp add: upload_posts_def)

lemma upload_posts_two: "upload_posts [Fetch POST upload_url, Fetch POST upload_url] = 2"
  by (simp add: upload_posts_def)

lemma bad_header_not_ok: "\<not> ok bad_header_response"
  by (simp add: ok_def bad_header_response_def)

lemma api_bad_header:
  "api (Resolved bad_header_response) = Inl (JsError ''422 Unprocessable Entity'')"
  by (simp add: api_def api_then_def bad_header_not_ok)
     (simp add: bad_header_response_def decimal_422)

lemma data_csv: "endsWith (file_name \<lparr>file_name = ''data.csv''\<rparr>) ''.csv''"
  by (simp add: endsWith_def)

lemma notes_txt: "\<not> endsWith (file_name \<lparr>file_name = ''notes.txt''\<rparr>) ''.csv''"
  by (simp add: endsWith_def)

text \<open>
  Claim C5: for a file whose name does not end in \<^verbatim>\<open>.csv\<close>, the root upload sets the
  message "Only CSV files are supported." and has no effect at all, and the upload of a new
  version alerts "Only CSV files allowed" and does nothing else; neither sends a request,
  whatever the service would have answered.
\<close>

theorem non_csv_no_request:
  "\<not> endsWith (file_name f) ''.csv'' \<Longrightarrow>
     upload (Some f) first second z =
       (z\<lparr>msg := Some \<lparr>msg_ok = False, msg_text = JStr ''Only CSV files are supported.'',
                        msg_details = Undefined\<rparr>\<rparr>, [])
   \<and> filter is_fetch (snd (upload (Some f) first second z)) = []
   \<and> uploadNewVersion d (Some f) out vp = (vp, [Alert ''Only CSV files allowed''])
   \<and> filter is_fetch (snd (uploadNewVersion d (Some f) out vp)) = []"
  by (simp add: upload_def uploadNewVersion_def not_csv_Some)

theorem non_csv_no_request_witness:
  "\<not> endsWith (file_name \<lparr>file_name = ''notes.txt''\<rparr>) ''.csv''
   \<and> snd (upload (Some \<lparr>file_name = ''notes.txt''\<rparr>) (Resolved bad_header_response)
            (Resolved bad_header_response) upload_zone_init) = []
   \<and> snd (uploadNewVersion 7 (Some \<lparr>file_name = ''notes.txt''\<rparr>)
            (Resolved bad_header_response) versions_panel_init)
       = [Alert ''Only CSV files allowed'']"
  using notes_txt
    non_csv_no_request [OF notes_txt, of "Resolved bad_header_response"
      "Resolved bad_header_response" upload_zone_init 7 "Resolved bad_header_response"
      versions_panel_init]
  by simp

text \<open>
  Claim C4, as the code has it: one call of \<open>upload\<close> with a file named \<^verbatim>\<open>.csv\<close> sends
  at most two POST requests to the upload endpoint. It sends exactly two when the first
  fails: the \<^verbatim>\<open>catch\<close> block sends the same POST once more to read the body of the
  rejection, and the failure is shown in \<open>msg\<close>. It sends exactly one when the
  \<^verbatim>\<open>try\<close> block runs to its end.
\<close>

theorem upload_posts_count:
  "endsWith (file_name f) ''.csv'' \<Longrightarrow>
     upload_posts (snd (upload (Some f) first second z)) \<le> 2
   \<and> (\<forall>e. api first = Inl e \<longrightarrow>
          upload_posts (snd (upload (Some f) first second z)) = 2
        \<and> (\<exists>m. msg (fst (upload (Some f) first second z)) = Some m \<and> \<not> msg_ok m))
   \<and> (\<forall>x. upload_try first = Inr x \<longrightarrow>
          upload_posts (snd (upload (Some f) first second z)) = 1)"
  apply (simp add: upload_def not_csv_Some upload_try_def upload_posts_one upload_posts_two
              split: sum.splits prod.splits)
  apply (auto simp: upload_catch_def Let_def split: sum.splits outcome.splits)
  done

theorem upload_posts_count_witness:
  "endsWith (file_name \<lparr>file_name = ''data.csv''\<rparr>) ''.csv''
   \<and> api (Resolved bad_header_response) = Inl (JsError ''422 Unprocessable Entity'')
   \<and> upload_posts (snd (upload (Some \<lparr>file_name = ''data.csv''\<rparr>)
         (Resolved bad_header_response) (Resolved bad_header_response) upload_zone_init)) = 2"
  using data_csv api_bad_header
    upload_posts_count [OF data_csv, of "Resolved bad_header_response"
      "Resolved bad_header_response" upload_zone_init]
  by simp

text \<open>
  Claim C4 as it is written fails: when the service rejects the file with status 422, this
  one call of \<open>upload\<close> sends more than one POST to the upload endpoint.
\<close>

theorem upload_reissues_post_counterexample:
  "\<not> upload_posts (snd (upload (Some \<lparr>file_name = ''data.csv''\<rparr>)
         (Resolved bad_header_response) (Resolved bad_header_response) upload_zone_init)) \<le> 1"
  using data_csv
  by (simp add: upload_def not_csv_Some upload_try_def api_bad_header upload_posts_two)




text \<open>
  Claim C7, at the rejection above: the upload of a new version of dataset 7 sends its POST
  to \<^verbatim>\<open>/datasets/7/new-version\<close>, and the one thing it does with the failure is an alert
  of "Upload failed: " and the message of the gateway's error; the body of the rejection,
  with its \<^verbatim>\<open>detail\<close> object, is never read.
\<close>

theorem uploadNewVersion_drops_detail:
  "uploadNewVersion 7 (Some \<lparr>file_name = ''data.csv''\<rparr>) (Resolved bad_header_response)
     versions_panel_init
   = (versions_panel_init\<lparr>vp_uploading := False\<rparr>,
      [Fetch POST ''http://localhost:8000/datasets/7/new-version'',
       Alert ''Upload failed: 422 Unprocessable Entity''])"
proof -
  have u: "new_version_url 7 = ''http://localhost:8000/datasets/7/new-version''"
    by (simp add: new_version_url_def API_BASE_def decimal_7)
  show ?thesis
    using data_csv by (simp add: uploadNewVersion_def not_csv_Some api_bad_header u)
qed

text \<open>
  The rest of what claim C7 says holds: a successful upload of a new version asks for the
  version list of the same dataset again and calls nothing that selects a dataset.
\<close>

lemma uploadNewVersion_success:
  "endsWith (file_name f) ''.csv'' \<Longrightarrow> api out = Inr v \<Longrightarrow>
     snd (uploadNewVersion d (Some f) out vp) =
       [Fetch POST (new_version_url d), Fetch GET (versions_url d),
        Alert (check_mark @ '' New version uploaded!'')]"
  by (simp add: uploadNewVersion_def not_csv_Some)

subsection \<open>Deleting a dataset\<close>

lemma decimal_Suc_0: "decimal (Suc 0) = ''1''"
  by code_simp

lemma api_deleted:
  "api (Resolved deleted_response) = Inr (JObj [(''message'', JStr ''Dataset deleted'')])"
  by (simp add: api_def api_then_def ok_def json_def deleted_response_def)

text \<open>
  Claim C10: the delete handler first asks for confirmation. When the answer is no, that
  question is its only effect: no request is sent, and the list, the selection and the
  \<^verbatim>\<open>deleting\<close> marker are as before. When the answer is yes, the DELETE of that dataset
  is the next effect and the only request. So a request among the effects means that the
  user confirmed.
\<close>

theorem delete_only_after_confirm:
  "(\<not> confirmed \<longrightarrow>
      DatasetList_handleDelete onDelete ds confirmed out st = (st, [Confirm (confirm_text ds)]))
   \<and> (confirmed \<longrightarrow>
        (\<exists>rest. snd (DatasetList_handleDelete onDelete ds confirmed out st)
                  = [Confirm (confirm_text ds), Fetch DELETE (delete_url (ds_id ds))] @ rest
               \<and> filter is_fetch rest = []))
   \<and> (filter is_fetch (snd (DatasetList_handleDelete onDelete ds confirmed out st)) \<noteq> []
        \<longrightarrow> confirmed)"
  by (auto simp: DatasetList_handleDelete_def split: sum.splits)

theorem delete_only_after_confirm_witness:
  "DatasetList_handleDelete (App_handleDelete (Some sales)) sales False
       (Resolved deleted_response) (None, sales_selected)
     = ((None, sales_selected), [Confirm (confirm_text sales)])
   \<and> filter is_fetch (snd (DatasetList_handleDelete (App_handleDelete (Some sales)) sales True
       (Resolved deleted_response) (None, sales_selected)))
     = [Fetch DELETE ''http://localhost:8000/datasets/1'']"
proof -
  have u: "delete_url (ds_id sales) = ''http://localhost:8000/datasets/1''"
    by (simp add: delete_url_def API_BASE_def sales_def decimal_Suc_0)
  show ?thesis
    using delete_only_after_confirm [of False "App_handleDelete (Some sales)" sales
            "Resolved deleted_response" "(None, sales_selected)"]
          delete_only_after_confirm [of True "App_handleDelete (Some sales)" sales
            "Resolved deleted_response" "(None, sales_selected)"]
    by (auto simp: u)
qed

text \<open>
  Claim C8, at a delete that is answered after the selection has changed. The delete button
  of \<open>stock\<close> is clicked and confirmed while \<open>sales\<close> is selected, so the list handler holds
  the \<^verbatim>\<open>onDelete\<close> of that render, which tests that selection. Before the DELETE is
  answered the row of \<open>stock\<close> is clicked and \<open>stock\<close> becomes the selected dataset. Then the
  DELETE succeeds: \<open>stock\<close> is taken out of the list and is still the selected dataset.
\<close>

theorem delete_leaves_deleted_selected:
  "fst (DatasetList_handleDelete (App_handleDelete (selected sales_selected)) stock True
          (Resolved deleted_response) (Some 2, App_onSelect stock sales_selected))
     = (None, \<lparr>datasets = [sales], selected = Some stock, activeTab = ''profile'',
               sideOpen = True\<rparr>)"
  by (simp add: DatasetList_handleDelete_def api_deleted App_handleDelete_def App_onSelect_def
                sales_selected_def sales_def stock_def)

text \<open>
  What holds of claim C8: when the handler is the one of the current render, it keeps
  exactly the datasets with another id, in their order, and the selection becomes \<open>None\<close>
  when the selected dataset has that id and is left alone otherwise.
\<close>

lemma remove_dataset_current_render:
  "api out = Inr v \<Longrightarrow>
     fst (DatasetList_handleDelete (App_handleDelete (selected a)) ds True out (dl, a))
       = (None, App_handleDelete (selected a) (ds_id ds) a)
   \<and> datasets (App_handleDelete (selected a) i a) = filter (\<lambda>x. ds_id x \<noteq> i) (datasets a)
   \<and> (\<forall>s. selected a = Some s \<and> ds_id s = i \<longrightarrow>
          selected (App_handleDelete (selected a) i a) = None)
   \<and> (\<forall>s. selected a = Some s \<and> ds_id s \<noteq> i \<longrightarrow>
          selected (App_handleDelete (selected a) i a) = Some s)"
  by (auto simp: DatasetList_handleDelete_def App_handleDelete_def Let_def)

text \<open>
  A DELETE that the service answers with a success status and an empty body is no success
  for the client: \<^verbatim>\<open>r.json()\<close> rejects, the handler alerts and nothing is removed.
\<close>

lemma delete_empty_body:
  "DatasetList_handleDelete onDelete ds True
       (Resolved \<lparr>status = 204, statusText = ''No Content'',
                  body = Inl ''Unexpected end of JSON input''\<rparr>) (dl, a)
     = ((None, a),
        [Confirm (confirm_text ds), Fetch DELETE (delete_url (ds_id ds)),
         Alert ''Delete failed: Unexpected end of JSON input''])"
  by (simp add: DatasetList_handleDelete_def api_def api_then_def ok_def json_def)

subsection \<open>Validation results\<close>

lemma decimal_small:
  "decimal 12 = ''12''" "decimal 3 = ''3''" "decimal (Suc (Suc (Suc 0))) = ''3''"
  "decimal 1 = ''1''"
  by code_simp+

lemma text_violations_heading:
  "text_content (violations_heading r vs)
     = ''Violations ('' @ decimal (violations r) @ '' total, showing first ''
       @ decimal (length vs) @ ''):''"
  by (simp add: violations_heading_def)

lemma rule_card_sampled:
  assumes "violation_details r = Some vs" and "vs \<noteq> []"
  shows "rule_card r =
           Element ''div''
             [Element ''div''
                [Element ''div''
                   ([Element ''span'' [Text (column r)], Element ''span'' [Text (rule_type r)]]
                    @ (case parameters r of None \<Rightarrow> []
                       | Some ps \<Rightarrow> [Element ''span'' [Text ps]])),
                 Element ''span'' [Text (rr_status r)]],
              Element ''p'' [Text (rr_message r)],
              Element ''div''
                [violations_heading r vs, Element ''div'' (map violation_entry vs)]]"
  using assms by (simp add: rule_card_def violations_block_def)

text \<open>
  Claim C9. The text of the rendered results is the title, the headline, then
  "\<open>passed\<close> passed, \<open>failed\<close> failed" with the two counts in decimal, then the text of one
  card for each rule result, in order; these cards are the children of the results card. The
  card of a rule result whose sample of violations is not empty has a violation list of
  exactly as many entries as the sample has elements, one for each of them in order, and its
  text reads, after the column, the rule, its parameters, the status and the message,
  "Violations (\<open>violations\<close> total, showing first \<open>n\<close>):" with the total and the size \<open>n\<close> of
  the sample as two numbers, and then the text of the \<open>n\<close> entries.
\<close>

theorem validation_summary_and_sample:
  "page_text (validation_results (Some vr))
     = ''Validation Results''
       @ (if overall_status vr = ''PASSED'' then check_mark @ '' All Rules Passed''
          else ballot_x @ '' Validation Failed'')
       @ decimal (passed vr) @ '' passed, '' @ decimal (failed vr) @ '' failed''
       @ concat (map (\<lambda>r. text_content (rule_card r)) (results vr))
   \<and> result_cards (validation_results (Some vr)) = map rule_card (results vr)
   \<and> (violation_details r = Some vs \<and> vs \<noteq> [] \<longrightarrow>
        card_entries (rule_card r) = map violation_entry vs
      \<and> length (card_entries (rule_card r)) = length vs
      \<and> text_content (rule_card r)
          = column r @ rule_type r @ (case parameters r of None \<Rightarrow> [] | Some ps \<Rightarrow> ps)
            @ rr_status r @ rr_message r
            @ ''Violations ('' @ decimal (violations r) @ '' total, showing first ''
            @ decimal (length vs) @ ''):''
            @ concat (map (\<lambda>v. text_content (violation_entry v)) vs))"
proof -
  have 1: "page_text (validation_results (Some vr))
     = ''Validation Results''
       @ (if overall_status vr = ''PASSED'' then check_mark @ '' All Rules Passed''
          else ballot_x @ '' Validation Failed'')
       @ decimal (passed vr) @ '' passed, '' @ decimal (failed vr) @ '' failed''
       @ concat (map (\<lambda>r. text_content (rule_card r)) (results vr))"
    by (simp add: page_text_def validation_results_def summary_box_def summary_line_def
                  comp_def)
  have 2: "result_cards (validation_results (Some vr)) = map rule_card (results vr)"
    by (simp add: validation_results_def)
  have 3: "card_entries (rule_card r) = map violation_entry vs"
    if "violation_details r = Some vs" "vs \<noteq> []"
    by (simp add: rule_card_sampled [OF that] split: option.splits)
  have 4: "text_content (rule_card r)
          = column r @ rule_type r @ (case parameters r of None \<Rightarrow> [] | Some ps \<Rightarrow> ps)
            @ rr_status r @ rr_message r
            @ ''Violations ('' @ decimal (violations r) @ '' total, showing first ''
            @ decimal (length vs) @ ''):''
            @ concat (map (\<lambda>v. text_content (violation_entry v)) vs)"
    if "violation_details r = Some vs" "vs \<noteq> []"
    unfolding rule_card_sampled [OF that]
    by (simp add: text_violations_heading comp_def split: option.splits)
  show ?thesis
    using 1 2 3 4 by simp
qed

lemma example_page_text:
  "str_includes (page_text (validation_results (Some three_passed_one_failed)))
     ''3 passed, 1 failed''"
  "str_includes (page_text (validation_results (Some three_passed_one_failed)))
     ''Violations (12 total, showing first 3):''"
  by code_simp+

theorem validation_summary_and_sample_witness:
  "violation_details failed_rule = Some [sampled 4, sampled 9, sampled 17]
   \<and> [sampled 4, sampled 9, sampled 17] \<noteq> []
   \<and> result_cards (validation_results (Some three_passed_one_failed)) = [rule_card failed_rule]
   \<and> length (card_entries (rule_card failed_rule)) = 3
   \<and> str_includes (page_text (validation_results (Some three_passed_one_failed)))
        ''3 passed, 1 failed''
   \<and> str_includes (page_text (validation_results (Some three_passed_one_failed)))
        ''Violations (12 total, showing first 3):''"
proof -
  have d: "violation_details failed_rule = Some [sampled 4, sampled 9, sampled 17]"
    by (simp add: failed_rule_def)
  have r: "results three_passed_one_failed = [failed_rule]"
    by (simp add: three_passed_one_failed_def)
  have c: "result_cards (validation_results (Some three_passed_one_failed))
             = [rule_card failed_rule]"
          "length (card_entries (rule_card failed_rule)) = 3"
    using d validation_summary_and_sample [of three_passed_one_failed failed_rule
        "[sampled 4, sampled 9, sampled 17]"]
    by (simp_all add: r)
  show ?thesis
    using d c example_page_text by simp
qed

subsection \<open>The pair of versions to compare\<close>

lemma slots_ok_init: "slots_ok versions_panel_init"
  by (simp add: slots_ok_def versions_panel_init_def)

lemma slots_ok_toggle: "slots_ok vp \<Longrightarrow> v \<noteq> 0 \<Longrightarrow> slots_ok (toggle vp v)"
  by (auto simp: slots_ok_def toggle_def onChange_def disabled_def checked_def slot_truthy_def
           split: option.splits)

lemma slots_ok_step:
  "slots_ok vp \<Longrightarrow> toggled_id e \<noteq> Some 0 \<Longrightarrow> slots_ok (versions_step vp e)"
  by (cases e) (auto simp: slots_ok_toggle, simp add: slots_ok_def dataset_changed_def)

lemma slots_ok_run:
  "slots_ok vp \<Longrightarrow> \<forall>e \<in> set es. toggled_id e \<noteq> Some 0 \<Longrightarrow>
     slots_ok (foldl versions_step vp es)"
  by (induction es arbitrary: vp) (auto simp: slots_ok_step)

lemma card_selection:
  "slots_ok vp \<Longrightarrow>
     card (selection vp)
       = (if selectedV1 vp = None then 0 else 1) + (if selectedV2 vp = None then 0 else 1)"
  by (cases "selectedV1 vp"; cases "selectedV2 vp") (auto simp: selection_def slots_ok_def)

lemma checked_selection: "checked vp v = (v \<in> selection vp)"
  by (auto simp: checked_def selection_def)

lemma toggle_selects:
  "slots_ok vp \<Longrightarrow> v \<noteq> 0 \<Longrightarrow> \<not> checked vp v \<Longrightarrow> card (selection vp) < 2 \<Longrightarrow>
     selection (toggle vp v) = insert v (selection vp)"
  by (cases "selectedV1 vp"; cases "selectedV2 vp")
     (auto simp: card_selection toggle_def onChange_def disabled_def checked_def slot_truthy_def
                 selection_def slots_ok_def)

lemma toggle_deselects:
  "checked vp v \<Longrightarrow> selection (toggle vp v) = selection vp - {v}"
  by (cases "selectedV1 vp"; cases "selectedV2 vp")
     (auto simp: toggle_def onChange_def disabled_def checked_def slot_truthy_def selection_def)

lemma toggle_third:
  "slots_ok vp \<Longrightarrow> \<not> checked vp v \<Longrightarrow> card (selection vp) = 2 \<Longrightarrow> toggle vp v = vp"
  by (cases "selectedV1 vp"; cases "selectedV2 vp")
     (auto simp: card_selection toggle_def disabled_def checked_def slot_truthy_def slots_ok_def)

lemma compare_shown_iff:
  "slots_ok vp \<Longrightarrow> compare_shown vp = (card (selection vp) = 2)"
  by (cases "selectedV1 vp"; cases "selectedV2 vp")
     (auto simp: card_selection compare_shown_def slot_truthy_def slots_ok_def)

text \<open>
  Claim C6, for versions whose id is not 0: in every state the panel reaches from its first
  render by clicks on checkboxes and changes of dataset, a click on an unchecked box while
  fewer than two are checked checks it and leaves the others as they are; a click on a
  checked box unchecks it and nothing else; while two are checked a click on a third box
  changes nothing; at most two ids are ever checked; and the compare button is on the page
  exactly when two distinct ids are checked. (The button itself is disabled while a
  comparison is being fetched.)
\<close>

theorem selection_pair:
  assumes "\<forall>e \<in> set es. toggled_id e \<noteq> Some 0"
      and "v \<noteq> 0"
      and "vp = foldl versions_step versions_panel_init es"
  shows "(\<not> checked vp v \<and> card (selection vp) < 2 \<longrightarrow>
            checked (toggle vp v) v \<and> selection (toggle vp v) = insert v (selection vp))
       \<and> (checked vp v \<longrightarrow>
            \<not> checked (toggle vp v) v \<and> selection (toggle vp v) = selection vp - {v})
       \<and> (card (selection vp) = 2 \<and> \<not> checked vp v \<longrightarrow> toggle vp v = vp)
       \<and> card (selection vp) \<le> 2
       \<and> (compare_shown vp \<longleftrightarrow> card (selection vp) = 2)"
proof -
  have inv: "slots_ok vp"
    using assms(1,3) slots_ok_run [OF slots_ok_init] by simp
  have le: "card (selection vp) \<le> 2"
    using inv by (simp add: card_selection)
  show ?thesis
    using inv assms(2) le
    by (simp add: toggle_selects toggle_deselects toggle_third compare_shown_iff
                  checked_selection)
qed

theorem selection_pair_witness:
  "list_all (\<lambda>e. toggled_id e \<noteq> Some 0) [Toggle 3, Toggle 5] \<and> (8::nat) \<noteq> 0 \<and> (3::nat) \<noteq> 0
   \<and> selection (foldl versions_step versions_panel_init [Toggle 3, Toggle 5]) = {3, 5}
   \<and> compare_shown (foldl versions_step versions_panel_init [Toggle 3, Toggle 5])
   \<and> toggle (foldl versions_step versions_panel_init [Toggle 3, Toggle 5]) 8
       = foldl versions_step versions_panel_init [Toggle 3, Toggle 5]
   \<and> selection (toggle (foldl versions_step versions_panel_init [Toggle 3, Toggle 5]) 3) = {5}
   \<and> selection (toggle (foldl versions_step versions_panel_init [Toggle 3]) 5) = {3, 5}"
proof -
  have h: "\<forall>e \<in> set [Toggle 3, Toggle 5]. toggled_id e \<noteq> Some 0"
          "\<forall>e \<in> set [Toggle 3]. toggled_id e \<noteq> Some 0"
    by simp_all
  have n: "(8::nat) \<noteq> 0" "(3::nat) \<noteq> 0" "(5::nat) \<noteq> 0"
    by simp_all
  have s2: "foldl versions_step versions_panel_init [Toggle 3, Toggle 5]
              = versions_panel_init\<lparr>selectedV1 := Some 3, selectedV2 := Some 5\<rparr>"
    by (simp add: toggle_def onChange_def disabled_def checked_def slot_truthy_def
                  versions_panel_init_def)
  have s1: "foldl versions_step versions_panel_init [Toggle 3]
              = versions_panel_init\<lparr>selectedV1 := Some 3\<rparr>"
    by (simp add: toggle_def onChange_def disabled_def checked_def slot_truthy_def
                  versions_panel_init_def)
  have c2: "selection (versions_panel_init\<lparr>selectedV1 := Some 3, selectedV2 := Some 5\<rparr>)
              = {3, 5}"
    and c1: "selection (versions_panel_init\<lparr>selectedV1 := Some 3\<rparr>) = {3}"
    by (auto simp: selection_def versions_panel_init_def)
  have k2: "card {3::nat, 5} = 2" and k1: "card {3::nat} < 2"
    by simp_all
  show ?thesis
    using n(1,2)
      selection_pair [OF h(1) n(1) refl]
      selection_pair [OF h(1) n(2) refl]
      selection_pair [OF h(2) n(3) refl]
    unfolding s2 s1 checked_selection c2 c1 k2
    using k1 by auto
qed

text \<open>
  Claim C6 as it is written fails for a version with the id 0, which the slots take for
  empty: after version 5 and version 0 are checked, two distinct ids are selected and the
  compare button is not on the page.
\<close>

theorem selection_pair_zero_id_counterexample:
  "selection (foldl versions_step versions_panel_init [Toggle 5, Toggle 0]) = {5, 0}
   \<and> card (selection (foldl versions_step versions_panel_init [Toggle 5, Toggle 0])) = 2
   \<and> \<not> compare_shown (foldl versions_step versions_panel_init [Toggle 5, Toggle 0])"
proof -
  have s: "foldl versions_step versions_panel_init [Toggle 5, Toggle 0]
             = versions_panel_init\<lparr>selectedV1 := Some 5, selectedV2 := Some 0\<rparr>"
    by (simp add: toggle_def onChange_def disabled_def checked_def slot_truthy_def
                  versions_panel_init_def)
  show ?thesis
    unfolding s by (auto simp: selection_def compare_shown_def slot_truthy_def)
qed

subsection \<open>The profile of the selected dataset\<close>









lemma ready_holds: "ready_for p d \<Longrightarrow> holds_for p d"
  by (auto simp: ready_for_def holds_for_def split: option.splits)






end
